theory Spec2Isabelle
  imports Complex_Main
begin

section \<open>Errors and tensors\<close>

text \<open>
  Python exceptions are values: every function of the source that can raise returns
  \<open>error + 'a\<close>, with \<open>Inl\<close> for the exception.
\<close>

datatype error =
  NotImplementedError | RuntimeError | ValueError | IndexError | TypeError | AttributeError
  | PETScError

definition bnd :: "error + 'a \<Rightarrow> ('a \<Rightarrow> error + 'b) \<Rightarrow> error + 'b" where
  "bnd m k = (case m of Inl e \<Rightarrow> Inl e | Inr a \<Rightarrow> k a)"

text \<open>
  A tensor is its shape and its entries in row-major order. Entries are the real
  numbers that floating-point entries denote, and the arithmetic on them is exact; the
  one rounding that is modelled is that of a Python float to the default dtype when a
  tensor is built from it (\<open>tensor_of_float\<close> below). A tensor of the library always
  holds as many entries as its shape says (\<open>well_formed\<close>).
\<close>

datatype tensor = Tensor (shape: "nat list") (data: "real list")

definition numel :: "nat list \<Rightarrow> nat" where
  "numel s = prod_list s"

definition well_formed :: "tensor \<Rightarrow> bool" where
  "well_formed t = (length (data t) = numel (shape t))"

subsection \<open>Broadcasting\<close>

text \<open>
  Shapes are aligned at the trailing dimension; two dimensions are compatible when they
  are equal or one of them is 1. The function works on the reversed shapes.
\<close>

fun broadcast_rev :: "nat list \<Rightarrow> nat list \<Rightarrow> nat list option" where
  "broadcast_rev [] bs = Some bs"
| "broadcast_rev (a # as) [] = Some (a # as)"
| "broadcast_rev (a # as) (b # bs) =
     (if a = b \<or> b = 1 then map_option ((#) a) (broadcast_rev as bs)
      else if a = 1 then map_option ((#) b) (broadcast_rev as bs)
      else None)"

definition broadcast_shapes :: "nat list \<Rightarrow> nat list \<Rightarrow> nat list option" where
  "broadcast_shapes s t = map_option rev (broadcast_rev (rev s) (rev t))"

definition pad_shape :: "nat \<Rightarrow> nat list \<Rightarrow> nat list" where
  "pad_shape n s = replicate (n - length s) 1 @ s"

text \<open>
  \<open>bidx src tgt p\<close>: the row-major position in a tensor of shape \<open>src\<close> that is read at
  the row-major position \<open>p\<close> of its expansion to shape \<open>tgt\<close> (a dimension of size 1 is
  read at index 0 whatever the target index).
\<close>

fun bidx :: "nat list \<Rightarrow> nat list \<Rightarrow> nat \<Rightarrow> nat" where
  "bidx (a # as) (b # bs) p =
     (if a = 1 then 0 else (p div numel bs) * numel as) + bidx as bs (p mod numel bs)"
| "bidx _ _ p = 0"

definition expand :: "nat list \<Rightarrow> tensor \<Rightarrow> real list" where
  "expand s t = map (\<lambda>p. data t ! bidx (pad_shape (length s) (shape t)) s p) [0..<numel s]"

definition bop :: "(real \<Rightarrow> real \<Rightarrow> real) \<Rightarrow> tensor \<Rightarrow> tensor \<Rightarrow> error + tensor" where
  "bop f t u =
     (case broadcast_shapes (shape t) (shape u) of
        None \<Rightarrow> Inl RuntimeError
      | Some s \<Rightarrow> Inr (Tensor s (map2 f (expand s t) (expand s u))))"

definition tadd :: "tensor \<Rightarrow> tensor \<Rightarrow> error + tensor" where
  "tadd = bop (+)"

definition tsub :: "tensor \<Rightarrow> tensor \<Rightarrow> error + tensor" where
  "tsub = bop (-)"

definition tmul :: "tensor \<Rightarrow> tensor \<Rightarrow> error + tensor" where
  "tmul = bop (*)"

text \<open>A tensor times, or divided by, a Python number.\<close>

definition smul :: "real \<Rightarrow> tensor \<Rightarrow> tensor" where
  "smul c t = Tensor (shape t) (map (\<lambda>r. c * r) (data t))"

definition sdiv :: "tensor \<Rightarrow> real \<Rightarrow> tensor" where
  "sdiv t c = Tensor (shape t) (map (\<lambda>r. r / c) (data t))"

definition zeros_like :: "tensor \<Rightarrow> tensor" where
  "zeros_like t = Tensor (shape t) (replicate (length (data t)) 0)"

subsection \<open>Reductions and reshape\<close>

text \<open>\<open>torch.sum(t, dim=1, keepdim=True)\<close>; a tensor with fewer than two dimensions has no
  dimension 1.\<close>

definition sum_dim1 :: "tensor \<Rightarrow> error + tensor" where
  "sum_dim1 t =
     (case shape t of
        n # m # rest \<Rightarrow>
          Inr (Tensor (n # 1 # rest)
                 (map (\<lambda>q. sum_list (map (\<lambda>k. data t !
                                 (((q div numel rest) * m + k) * numel rest + q mod numel rest))
                               [0..<m]))
                      [0..<n * numel rest]))
      | _ \<Rightarrow> Inl IndexError)"

text \<open>\<open>torch.sum(t, dim=-1, keepdim=True)\<close>; on a 0-dimensional tensor it returns the
  tensor.\<close>

definition sum_last :: "tensor \<Rightarrow> tensor" where
  "sum_last t =
     (if shape t = [] then t
      else Tensor (butlast (shape t) @ [1])
             (map (\<lambda>q. sum_list (map (\<lambda>k. data t ! (q * last (shape t) + k))
                                     [0..<last (shape t)]))
                  [0..<numel (butlast (shape t))]))"

text \<open>\<open>t.reshape(s)\<close> for a shape of non-negative sizes: the entries stay, their number
  must fit.\<close>

definition reshape :: "nat list \<Rightarrow> tensor \<Rightarrow> error + tensor" where
  "reshape s t = (if numel s = length (data t) then Inr (Tensor s (data t)) else Inl RuntimeError)"

text \<open>\<open>t.mean(dim=0)\<close>. With a leading dimension of size 0 the library fills the result
  with NaN, which the real-valued entries cannot express; the theorems below stay away
  from that case.\<close>

definition mean_dim0 :: "tensor \<Rightarrow> tensor" where
  "mean_dim0 t =
     (case shape t of
        [] \<Rightarrow> t
      | n # rest \<Rightarrow>
          Tensor rest
            (map (\<lambda>q. sum_list (map (\<lambda>k. data t ! (k * numel rest + q)) [0..<n]) / real n)
                 [0..<numel rest]))"

section \<open>The directional-derivative primitive (wrapper.py, jvp)\<close>

text \<open>
  A Python callable on tensors is given by what it returns on a plain tensor (\<open>call\<close>)
  and by what it returns on a dual tensor, a primal with a tangent (\<open>call_dual\<close>): the
  primal and the tangent of the output. The tangent is absent when the output does not
  depend on the dual input.
\<close>

record pyfun =
  call :: "tensor \<Rightarrow> error + tensor"
  call_dual :: "tensor \<times> tensor \<Rightarrow> error + tensor \<times> tensor option"

text \<open>\<open>fwAD.make_dual(x, v)\<close> refuses a tangent whose shape is not the primal's.\<close>

definition make_dual :: "tensor \<Rightarrow> tensor \<Rightarrow> error + tensor \<times> tensor" where
  "make_dual x v = (if shape v = shape x then Inr (x, v) else Inl RuntimeError)"

definition jvp :: "pyfun \<Rightarrow> tensor \<Rightarrow> tensor \<Rightarrow> string \<Rightarrow> real
    \<Rightarrow> error + tensor \<times> tensor option" where
  "jvp f x v jvp_type eps =
     (if jvp_type = ''forwardAD'' then
        bnd (make_dual x v) (\<lambda>dual_input. call_dual f dual_input)
      else if jvp_type = ''forwardFD'' then
        bnd (call f x) (\<lambda>y.
        bnd (tadd x (smul eps v)) (\<lambda>x_plus.
        bnd (call f x_plus) (\<lambda>y_plus.
        bnd (tsub y_plus y) (\<lambda>diff.
        Inr (y, Some (sdiv diff eps))))))
      else if jvp_type = ''centralFD'' then
        bnd (call f x) (\<lambda>y.
        bnd (tadd x (smul eps v)) (\<lambda>x_plus.
        bnd (call f x_plus) (\<lambda>y_plus.
        bnd (tsub x (smul eps v)) (\<lambda>x_minus.
        bnd (call f x_minus) (\<lambda>y_minus.
        bnd (tsub y_plus y_minus) (\<lambda>diff.
        Inr (y, Some (sdiv diff (2 * eps)))))))))
      else Inl NotImplementedError)"

section \<open>The custom-gradient node (wrapper.py, register_custom_grad_fn)\<close>

text \<open>
  A tensor that carries an autograd graph is its value and what
  \<open>torch.autograd.grad(t, x, grad_outputs=g)\<close> returns for the saved input \<open>x\<close>:
  a gradient, or an exception when the graph does not reach \<open>x\<close>.
\<close>

record gtensor =
  val :: tensor
  vjp :: "tensor \<Rightarrow> error + tensor"

text \<open>The dictionary \<open>d\<close> handed to the node, one field per key. \<open>Nv\<close> is the configured
  number of probe directions per sample, a count; \<open>grad_type\<close> is kept as the string it
  is, so that an unrecognized value can be told from the four known ones.\<close>

record estimator_context =
  d_y :: gtensor
  d_dvf :: tensor
  d_y_hat :: gtensor
  d_dvf_hat :: tensor
  d_v :: tensor
  d_v_scale :: real
  d_Nv :: nat
  d_grad_type :: string

text \<open>What \<open>forward\<close> leaves on \<open>ctx\<close> for \<open>backward\<close>.\<close>

record node_ctx =
  ctx_d :: estimator_context
  saved_tensors :: "tensor \<times> tensor"

definition forward :: "tensor \<Rightarrow> estimator_context \<Rightarrow> node_ctx \<times> tensor" where
  "forward x d = (\<lparr>ctx_d = d, saved_tensors = (x, d_v d)\<rparr>, val (d_y d))"

text \<open>
  Lines 73--74 and 80--81 of the source are one expression, once with \<open>d["dvf"]\<close> and
  once with \<open>d["dvf_hat"]\<close>:
  \<^verbatim>\<open>(torch.sum(grad_y * dvf, dim=1, keepdim=True) * v).reshape(Nv, bs, in_dim).mean(dim=0)\<close>
\<close>

definition forward_gradient :: "tensor \<Rightarrow> tensor \<Rightarrow> tensor \<Rightarrow> nat \<Rightarrow> nat \<Rightarrow> nat
    \<Rightarrow> error + tensor" where
  "forward_gradient grad_y dvf v Nv bs in_dim =
     bnd (tmul grad_y dvf) (\<lambda>prod.
     bnd (sum_dim1 prod) (\<lambda>s.
     bnd (tmul s v) (\<lambda>scaled.
     bnd (reshape [Nv, bs, in_dim] scaled) (\<lambda>r.
     Inr (mean_dim0 r)))))"

text \<open>\<open>backward\<close> returns the gradient for \<open>x\<close> and \<open>None\<close> for the dictionary.\<close>

definition backward :: "node_ctx \<Rightarrow> tensor \<Rightarrow> error + tensor \<times> unit option" where
  "backward ctx grad_y =
     (let x = fst (saved_tensors ctx);
          d = ctx_d ctx;
          v = smul (d_v_scale d) (snd (saved_tensors ctx))
      in case shape x of
           [bs, in_dim] \<Rightarrow>
             if d_grad_type d = ''f_true'' then
               (case vjp (d_y d) grad_y of
                  Inr f_true \<Rightarrow> Inr (f_true, None)
                | Inl _ \<Rightarrow> Inr (zeros_like x, None))
             else
               bnd (forward_gradient grad_y (d_dvf d) v (d_Nv d) bs in_dim) (\<lambda>f_fwd.
               if d_grad_type d = ''f_fwd'' then Inr (f_fwd, None)
               else
                 bnd (forward_gradient grad_y (d_dvf_hat d) v (d_Nv d) bs in_dim) (\<lambda>f_hat_fwd.
                 bnd (vjp (d_y_hat d) grad_y) (\<lambda>g.
                 let f_hat_true = sdiv g (real (d_Nv d)) in
                 if d_grad_type d = ''f_hat_true'' then Inr (f_hat_true, None)
                 else if d_grad_type d = ''cv_fwd'' then
                   bnd (tsub f_hat_fwd f_hat_true) (\<lambda>diff.
                   bnd (tsub f_fwd diff) (\<lambda>cv_fwd.
                   Inr (cv_fwd, None)))
                 else Inl NotImplementedError)))
         | _ \<Rightarrow> Inl ValueError)"

section \<open>Tasks and their conversion (tasks.py)\<close>

subsection \<open>Compressed sparse rows\<close>

text \<open>
  A PETSc AIJ matrix is its size and its stored entries in compressed sparse row form,
  what \<open>getSize\<close> and \<open>getValuesCSR\<close> return: row offsets \<open>I\<close>, column indices \<open>J\<close>,
  values \<open>V\<close>. \<open>Mat.equal\<close> on AIJ matrices compares the sizes and the three arrays, so
  it is equality of this record. A PETSc vector is the list of its entries.
\<close>

record petsc_mat =
  mat_size :: "nat \<times> nat"
  mat_I :: "nat list"
  mat_J :: "nat list"
  mat_V :: "real list"








definition offsets :: "'a list list \<Rightarrow> nat list" where
  "offsets rows = map (\<lambda>i. sum_list (map length (take i rows))) [0..<Suc (length rows)]"


subsection \<open>The two task representations\<close>

text \<open>
  The fields carry a prefix (\<open>pt_\<close> for \<open>PyTorchLinearSystemTask\<close>, \<open>ps_\<close> for
  \<open>PETScLinearSystemTask\<close>) because a field is a constant of the theory. \<open>'p\<close> is
  \<open>TaskParams\<close>, \<open>'q\<close> the type of the \<open>problem\<close> placeholder.
\<close>

record 'p PyTorchLinearSystemTask =
  pt_params :: "'p option"
  pt_A :: tensor
  pt_b :: tensor
  pt_x :: "tensor option"
  pt_rtol :: tensor
  pt_maxiter :: tensor

record ('p, 'q) PETScLinearSystemTask =
  ps_params :: "'p option"
  ps_A :: petsc_mat
  ps_b :: "real list"
  ps_x :: "real list option"
  ps_rtol :: real
  ps_maxiter :: int
  ps_problem :: "'q option"

text \<open>\<open>torch.equal\<close>: same size and same entries; \<open>None\<close> is not a tensor.\<close>

definition torch_equal :: "tensor option \<Rightarrow> tensor option \<Rightarrow> error + bool" where
  "torch_equal t u =
     (case (t, u) of (Some a, Some b) \<Rightarrow> Inr (a = b) | _ \<Rightarrow> Inl TypeError)"

text \<open>\<open>x.equal(y)\<close> on PETSc vectors: \<open>None\<close> has no method \<open>equal\<close>, and \<open>None\<close> as the
  argument gives no comparison result either.\<close>

definition vec_equal :: "real list option \<Rightarrow> real list option \<Rightarrow> error + bool" where
  "vec_equal t u =
     (case (t, u) of
        (Some a, Some b) \<Rightarrow> Inr (a = b)
      | (None, _) \<Rightarrow> Inl AttributeError
      | (Some a, None) \<Rightarrow> Inl PETScError)"

text \<open>\<open>np.isclose(a, b)\<close> with its default tolerances:
  \<open>|a - b| \<le> atol + rtol * |b|\<close>, \<open>atol = 1e-8\<close>, \<open>rtol = 1e-5\<close>.\<close>

definition isclose :: "real \<Rightarrow> real \<Rightarrow> bool" where
  "isclose a b = (\<bar>a - b\<bar> \<le> 1 / 10 ^ 8 + (1 / 10 ^ 5) * \<bar>b\<bar>)"

text \<open>\<open>__eq__\<close> of the two classes: a chain of \<open>and\<close>, which stops at the first operand
  that is false.\<close>

definition PyTorchLinearSystemTask_eq ::
    "'p PyTorchLinearSystemTask \<Rightarrow> 'p PyTorchLinearSystemTask \<Rightarrow> error + bool" where
  "PyTorchLinearSystemTask_eq self other =
     (if pt_A self \<noteq> pt_A other then Inr False
      else if pt_b self \<noteq> pt_b other then Inr False
      else
        bnd (if pt_x self = None \<and> pt_x other = None then Inr True
             else torch_equal (pt_x self) (pt_x other)) (\<lambda>x_eq.
        if \<not> x_eq then Inr False
        else if pt_rtol self \<noteq> pt_rtol other then Inr False
        else Inr (pt_maxiter self = pt_maxiter other)))"

definition PETScLinearSystemTask_eq ::
    "('p, 'q) PETScLinearSystemTask \<Rightarrow> ('p, 'q) PETScLinearSystemTask \<Rightarrow> error + bool" where
  "PETScLinearSystemTask_eq self other =
     (if ps_A self \<noteq> ps_A other then Inr False
      else if ps_b self \<noteq> ps_b other then Inr False
      else
        bnd (if ps_x self = None \<and> ps_x other = None then Inr True
             else vec_equal (ps_x self) (ps_x other)) (\<lambda>x_eq.
        if \<not> x_eq then Inr False
        else if \<not> isclose (ps_rtol self) (ps_rtol other) then Inr False
        else Inr (ps_maxiter self = ps_maxiter other)))"

subsection \<open>petsc2torch and torch2petsc\<close>

text \<open>
  \<open>torch.tensor\<close> of a Python float builds a tensor of torch's default floating dtype
  (\<open>torch.get_default_dtype()\<close>: \<open>float32\<close> unless a script has set another, as
  \<open>poisson1d.py\<close> does), and so rounds the float, a double, to that dtype. The entries of
  the model are the reals that doubles denote, so \<open>float64\<close> rounds nothing, and \<open>float32\<close>
  rounds to the nearest number with a 24-bit significand, ties to even; below the
  smallest normal binade the spacing stays that of this binade, which is the spacing of
  the subnormal numbers. Beyond the range of \<open>float32\<close> the library gives infinity, which
  the model does not express.
\<close>

datatype dtype = float32 | float64

definition pow2 :: "int \<Rightarrow> real" where
  "pow2 e = (if 0 \<le> e then 2 ^ nat e else 1 / 2 ^ nat (- e))"

definition float32_exponent :: "real \<Rightarrow> int" where
  "float32_exponent r =
     (case find (\<lambda>e. \<bar>r\<bar> < pow2 (e + 1)) (map (\<lambda>k. int k - 126) [0..<254]) of
        Some e \<Rightarrow> e
      | None \<Rightarrow> 127)"

definition round_half_even :: "real \<Rightarrow> int" where
  "round_half_even m =
     (let f = \<lfloor>m\<rfloor>
      in if m - of_int f < 1 / 2 then f
         else if 1 / 2 < m - of_int f then f + 1
         else if even f then f else f + 1)"

definition to_float32 :: "real \<Rightarrow> real" where
  "to_float32 r =
     (let ulp = pow2 (float32_exponent r - 23)
      in of_int (round_half_even (r / ulp)) * ulp)"

definition round_to :: "dtype \<Rightarrow> real \<Rightarrow> real" where
  "round_to dt r = (case dt of float32 \<Rightarrow> to_float32 r | float64 \<Rightarrow> r)"


definition tensor_of_float :: "dtype \<Rightarrow> real \<Rightarrow> tensor" where
  "tensor_of_float dt r = Tensor [] [round_to dt r]"

definition tensor_of_int :: "int \<Rightarrow> tensor" where
  "tensor_of_int k = Tensor [] [of_int k]"

text \<open>\<open>float(t)\<close> and \<open>int(t)\<close> want a tensor with one entry; \<open>int\<close> drops the fraction.\<close>

definition float_of_tensor :: "tensor \<Rightarrow> error + real" where
  "float_of_tensor t = (case data t of [r] \<Rightarrow> Inr r | _ \<Rightarrow> Inl ValueError)"

definition int_of_tensor :: "tensor \<Rightarrow> error + int" where
  "int_of_tensor t =
     (case data t of [r] \<Rightarrow> Inr (if 0 \<le> r then \<lfloor>r\<rfloor> else \<lceil>r\<rceil>) | _ \<Rightarrow> Inl ValueError)"



section \<open>The sphere test function (minimize_testfunctions.py)\<close>

text \<open>\<open>tensor**2\<close> and, on a dual tensor, its tangent \<open>2 * tensor * tangent\<close>.\<close>

definition square :: "tensor \<Rightarrow> tensor" where
  "square t = Tensor (shape t) (map (\<lambda>r. r ^ 2) (data t))"

definition square_tangent :: "tensor \<Rightarrow> tensor \<Rightarrow> tensor" where
  "square_tangent t dt = Tensor (shape t) (map2 (\<lambda>r dr. 2 * r * dr) (data t) (data dt))"

text \<open>\<open>torch.sum(tensor**2, dim=-1, keepdim=True)\<close>, on plain tensors and on dual tensors
  (the sum is linear: the tangent of the sum is the sum of the tangent).\<close>

definition sphere :: pyfun where
  "sphere =
     \<lparr>call = (\<lambda>t. Inr (sum_last (square t))),
      call_dual = (\<lambda>(t, dt). Inr (sum_last (square t), Some (sum_last (square_tangent t dt))))\<rparr>"

section \<open>Reading entries, and the inputs used as examples\<close>

text \<open>Entry \<open>[i, j]\<close> of a two-dimensional tensor.\<close>

definition at2 :: "tensor \<Rightarrow> nat \<Rightarrow> nat \<Rightarrow> real" where
  "at2 t i j = data t ! (i * (shape t ! 1) + j)"

text \<open>One sample with two features, probed twice (\<open>Nv = 2\<close>) along the two unit vectors;
  \<open>ex_d_opaque\<close> is the same context with graphs that autograd cannot differentiate.\<close>

definition ex_x :: tensor where "ex_x = Tensor [1, 2] [3, 4]"
definition ex_v :: tensor where "ex_v = Tensor [2, 2] [1, 0, 0, 1]"
definition ex_grad_y :: tensor where "ex_grad_y = Tensor [2, 1] [1, 1]"

definition ex_d :: "string \<Rightarrow> estimator_context" where
  "ex_d g = \<lparr>d_y = \<lparr>val = Tensor [2, 1] [25, 25], vjp = (\<lambda>g. Inr (Tensor [1, 2] [12, 16]))\<rparr>,
            d_dvf = Tensor [2, 1] [6, 8],
            d_y_hat = \<lparr>val = Tensor [2, 1] [24, 26], vjp = (\<lambda>g. Inr (Tensor [1, 2] [10, 18]))\<rparr>,
            d_dvf_hat = Tensor [2, 1] [5, 9],
            d_v = ex_v, d_v_scale = 1, d_Nv = 2, d_grad_type = g\<rparr>"

definition ex_d_opaque :: "string \<Rightarrow> estimator_context" where
  "ex_d_opaque g = (ex_d g)\<lparr>d_y := \<lparr>val = Tensor [2, 1] [25, 25], vjp = (\<lambda>g. Inl RuntimeError)\<rparr>,
                            d_y_hat := \<lparr>val = Tensor [2, 1] [24, 26], vjp = (\<lambda>g. Inl RuntimeError)\<rparr>\<rparr>"




text \<open>
  The tasks of \<open>tests/modules/test_tasks.py\<close> (the system \<open>diag(1, 2, 3) x = [1, 2, 3]\<close>; the
  tests run under the default dtype \<open>float32\<close>, in which \<open>torch.tensor(1.0e-6)\<close> is built),
  the same tasks with a ground truth, the sparse task with a zero stored at \<open>[0, 1]\<close>, and
  the dense task with \<open>rtol\<close> as a one-dimensional tensor of one entry.
\<close>

definition ex_petsc_task :: "(unit, unit) PETScLinearSystemTask" where
  "ex_petsc_task =
     \<lparr>ps_params = None,
      ps_A = \<lparr>mat_size = (3, 3), mat_I = [0, 1, 2, 3], mat_J = [0, 1, 2], mat_V = [1, 2, 3]\<rparr>,
      ps_b = [1, 2, 3], ps_x = None, ps_rtol = 1 / 10 ^ 6, ps_maxiter = 100, ps_problem = None\<rparr>"

definition ex_torch_task :: "unit PyTorchLinearSystemTask" where
  "ex_torch_task =
     \<lparr>pt_params = None,
      pt_A = Tensor [3, 3] [1, 0, 0, 0, 2, 0, 0, 0, 3],
      pt_b = Tensor [3] [1, 2, 3], pt_x = None,
      pt_rtol = tensor_of_float float32 (1 / 10 ^ 6), pt_maxiter = tensor_of_int 100\<rparr>"

definition ex_petsc_task_gt :: "(unit, unit) PETScLinearSystemTask" where
  "ex_petsc_task_gt = ex_petsc_task\<lparr>ps_x := Some [1, 1, 1]\<rparr>"

definition ex_torch_task_gt :: "unit PyTorchLinearSystemTask" where
  "ex_torch_task_gt = ex_torch_task\<lparr>pt_x := Some (Tensor [3] [1, 1, 1])\<rparr>"



section \<open>Lemmas on the tensor operations\<close>

lemma bnd_Inl [simp]: "bnd (Inl e) k = Inl e"
  by (simp add: bnd_def)

lemma bnd_Inr [simp]: "bnd (Inr a) k = k a"
  by (simp add: bnd_def)

lemma bnd_eq_Inr: "bnd m k = Inr r \<longleftrightarrow> (\<exists>a. m = Inr a \<and> k a = Inr r)"
  by (cases m) simp_all

lemma broadcast_rev_same: "broadcast_rev xs xs = Some xs"
  by (induction xs) simp_all

lemma broadcast_shapes_same: "broadcast_shapes s s = Some s"
  by (simp add: broadcast_shapes_def broadcast_rev_same)

lemma numel_Cons [simp]: "numel (a # as) = a * numel as"
  by (simp add: numel_def)

lemma numel_Nil [simp]: "numel [] = 1"
  by (simp add: numel_def)

lemma bidx_same: "p < numel s \<Longrightarrow> bidx s s p = p"
proof (induction s arbitrary: p)
  case Nil
  then show ?case by simp
next
  case (Cons a as)
  have pos: "0 < numel as"
    using Cons.prems by (cases "numel as = 0") simp_all
  then have m: "p mod numel as < numel as" by simp
  show ?case
  proof (cases "a = 1")
    case True
    then have "p < numel as" using Cons.prems by simp
    then show ?thesis using True Cons.IH [OF m] by simp
  next
    case False
    then show ?thesis using Cons.IH [OF m] by simp
  qed
qed

lemma pad_shape_same: "pad_shape (length s) s = s"
  by (simp add: pad_shape_def)

lemma expand_same: "well_formed t \<Longrightarrow> expand (shape t) t = data t"
proof -
  assume w: "well_formed t"
  have "expand (shape t) t = map (\<lambda>p. data t ! p) [0..<numel (shape t)]"
    unfolding expand_def by (rule map_cong) (simp_all add: pad_shape_same bidx_same)
  also have "\<dots> = data t"
    using w map_nth [of "data t"] by (simp add: well_formed_def)
  finally show ?thesis .
qed

lemma bop_same_shape:
  "well_formed t \<Longrightarrow> well_formed u \<Longrightarrow> shape u = shape t \<Longrightarrow>
   bop f t u = Inr (Tensor (shape t) (map2 f (data t) (data u)))"
  using expand_same [of t] expand_same [of u]
  by (simp add: bop_def broadcast_shapes_same)


lemma expand_nth: "well_formed t \<Longrightarrow> expand (shape t) t = map (\<lambda>p. data t ! p) [0..<numel (shape t)]"
  using expand_same [of t] map_nth [of "data t"] by (simp add: well_formed_def)

lemma sum_dim1_2d:
  "shape t = [N, M] \<Longrightarrow>
   sum_dim1 t = Inr (Tensor [N, 1] (map (\<lambda>q. sum_list (map (\<lambda>k. data t ! (q * M + k)) [0..<M])) [0..<N]))"
  by (simp add: sum_dim1_def)

lemma bidx_col: "p < N * D \<Longrightarrow> bidx [N, Suc 0] [N, D] p = p div D"
  by (cases "N = 1") simp_all

lemma broadcast_shapes_col: "broadcast_shapes [N, Suc 0] [N, D] = Some [N, D]"
  by (simp add: broadcast_shapes_def)

lemma expand_col:
  "shape s = [N, Suc 0] \<Longrightarrow> expand [N, D] s = map (\<lambda>p. data s ! (p div D)) [0..<N * D]"
  unfolding expand_def by (rule map_cong) (simp_all add: pad_shape_def bidx_col del: bidx.simps)

lemma tmul_col:
  assumes "shape s = [N, Suc 0]" "shape w = [N, D]" "well_formed w"
  shows "tmul s w = Inr (Tensor [N, D] (map (\<lambda>p. data s ! (p div D) * data w ! p) [0..<N * D]))"
proof -
  have "expand [N, D] w = map (\<lambda>p. data w ! p) [0..<N * D]"
    using expand_nth [OF assms(3)] assms(2) by simp
  then show ?thesis
    using assms(1,2) expand_col [OF assms(1), of D]
    by (simp add: tmul_def bop_def broadcast_shapes_col map2_map_map)
qed

lemma forward_gradient_closed:
  assumes gy: "shape gy = [Nv * bs, M]" "well_formed gy"
    and dvf: "shape dvf = [Nv * bs, M]" "well_formed dvf"
    and w: "shape w = [Nv * bs, D]" "well_formed w"
  shows "forward_gradient gy dvf w Nv bs D =
    Inr (Tensor [bs, D]
      (map (\<lambda>q. sum_list (map (\<lambda>k.
                   sum_list (map (\<lambda>m. data gy ! ((k * bs + q div D) * M + m) * data dvf ! ((k * bs + q div D) * M + m)) [0..<M])
                   * data w ! (k * (bs * D) + q)) [0..<Nv]) / real Nv)
           [0..<bs * D]))"
proof -
  let ?pd = "map2 (*) (data gy) (data dvf)"
  let ?sd = "map (\<lambda>q. sum_list (map (\<lambda>k. ?pd ! (q * M + k)) [0..<M])) [0..<Nv * bs]"
  let ?scd = "map (\<lambda>p. ?sd ! (p div D) * data w ! p) [0..<Nv * bs * D]"
  let ?row = "\<lambda>k q. sum_list (map (\<lambda>m. data gy ! ((k * bs + q div D) * M + m) * data dvf ! ((k * bs + q div D) * M + m)) [0..<M])"
  have len: "length (data gy) = Nv * bs * M" "length (data dvf) = Nv * bs * M"
    using gy dvf by (simp_all add: well_formed_def)
  have 1: "tmul gy dvf = Inr (Tensor [Nv * bs, M] ?pd)"
    using bop_same_shape [OF gy(2) dvf(2), of "(*)"] gy(1) dvf(1) by (simp add: tmul_def)
  have 2: "sum_dim1 (Tensor [Nv * bs, M] ?pd) = Inr (Tensor [Nv * bs, Suc 0] ?sd)"
    using sum_dim1_2d [of "Tensor [Nv * bs, M] ?pd" "Nv * bs" M] by simp
  have 3: "tmul (Tensor [Nv * bs, Suc 0] ?sd) w = Inr (Tensor [Nv * bs, D] ?scd)"
    using tmul_col [of "Tensor [Nv * bs, Suc 0] ?sd" "Nv * bs" w D] w by simp
  have 4: "reshape [Nv, bs, D] (Tensor [Nv * bs, D] ?scd) = Inr (Tensor [Nv, bs, D] ?scd)"
    by (simp add: reshape_def)
  have 5: "mean_dim0 (Tensor [Nv, bs, D] ?scd) =
     Tensor [bs, D] (map (\<lambda>q. sum_list (map (\<lambda>k. ?scd ! (k * (bs * D) + q)) [0..<Nv]) / real Nv) [0..<bs * D])"
    by (simp add: mean_dim0_def)
  have entry: "?scd ! (k * (bs * D) + q) = ?row k q * data w ! (k * (bs * D) + q)"
    if "k < Nv" "q < bs * D" for k q
  proof -
    have Dpos: "0 < D" using that(2) by (cases D) simp_all
    have "k * (bs * D) + q < k * (bs * D) + bs * D" using that(2) by simp
    also have "\<dots> = (Suc k) * (bs * D)" by simp
    also have "\<dots> \<le> Nv * (bs * D)" using that(1) by (intro mult_le_mono1) simp
    finally have lt: "k * (bs * D) + q < Nv * bs * D" by (simp add: mult.assoc)
    have dv: "(k * (bs * D) + q) div D = k * bs + q div D"
      using Dpos by (simp add: mult.assoc [symmetric])
    have "q div D < bs" using that(2) Dpos by (simp add: less_mult_imp_div_less)
    then have "k * bs + q div D < k * bs + bs" by simp
    also have "\<dots> = Suc k * bs" by simp
    also have "\<dots> \<le> Nv * bs" using that(1) by (intro mult_le_mono1) simp
    finally have row: "k * bs + q div D < Nv * bs" .
    have pr: "?pd ! ((k * bs + q div D) * M + m) =
        data gy ! ((k * bs + q div D) * M + m) * data dvf ! ((k * bs + q div D) * M + m)" if "m < M" for m
    proof -
      have "(k * bs + q div D) * M + m < (k * bs + q div D) * M + M" using that by simp
      also have "\<dots> = Suc (k * bs + q div D) * M" by simp
      also have "\<dots> \<le> Nv * bs * M" using row by (intro mult_le_mono1) simp
      finally show ?thesis using len by simp
    qed
    have "?scd ! (k * (bs * D) + q) = ?sd ! (k * bs + q div D) * data w ! (k * (bs * D) + q)"
      using lt dv by simp
    also have "?sd ! (k * bs + q div D) = sum_list (map (\<lambda>m. ?pd ! ((k * bs + q div D) * M + m)) [0..<M])"
      using row by simp
    also have "\<dots> = ?row k q"
      by (rule arg_cong [where f = sum_list], rule map_cong [OF refl]) (use pr in simp)
    finally show ?thesis .
  qed
  have 6: "map (\<lambda>q. sum_list (map (\<lambda>k. ?scd ! (k * (bs * D) + q)) [0..<Nv]) / real Nv) [0..<bs * D] =
      map (\<lambda>q. sum_list (map (\<lambda>k. ?row k q * data w ! (k * (bs * D) + q)) [0..<Nv]) / real Nv) [0..<bs * D]"
  proof (rule map_cong [OF refl])
    fix q assume "q \<in> set [0..<bs * D]"
    then have q: "q < bs * D" by simp
    show "sum_list (map (\<lambda>k. ?scd ! (k * (bs * D) + q)) [0..<Nv]) / real Nv =
       sum_list (map (\<lambda>k. ?row k q * data w ! (k * (bs * D) + q)) [0..<Nv]) / real Nv"
      by (rule arg_cong [where f = "\<lambda>l. sum_list l / real Nv"], rule map_cong [OF refl])
         (use entry [OF _ q] in simp)
  qed
  show ?thesis
    unfolding forward_gradient_def 1 bnd_Inr 2 3 4 5 6 ..
qed


lemma sum_list_upt: "sum_list (map f [0..<n]) = (\<Sum>k<n. f k)"
  by (simp add: interv_sum_list_conv_sum_set_nat atLeast0LessThan)

lemma forward_gradient_shape:
  assumes "forward_gradient gy dvf w Nv bs D = Inr g"
  shows "shape g = [bs, D] \<and> well_formed g"
proof -
  from assms obtain sc where "reshape [Nv, bs, D] sc = Inr (Tensor [Nv, bs, D] (data sc))"
      and "g = mean_dim0 (Tensor [Nv, bs, D] (data sc))"
    by (auto simp: forward_gradient_def bnd_eq_Inr reshape_def split: if_splits)
  then show ?thesis
    by (simp add: mean_dim0_def well_formed_def)
qed

lemma smul_shape [simp]: "shape (smul c t) = shape t"
  by (simp add: smul_def)

lemma smul_well_formed [simp]: "well_formed (smul c t) = well_formed t"
  by (simp add: smul_def well_formed_def)

lemma smul_nth: "p < length (data t) \<Longrightarrow> data (smul c t) ! p = c * data t ! p"
  by (simp add: smul_def)


lemma backward_2d:
  "shape x = [bs, D] \<Longrightarrow>
   backward (fst (forward x d)) grad_y =
     (if d_grad_type d = ''f_true'' then
        (case vjp (d_y d) grad_y of
           Inr f_true \<Rightarrow> Inr (f_true, None)
         | Inl _ \<Rightarrow> Inr (zeros_like x, None))
      else
        bnd (forward_gradient grad_y (d_dvf d) (smul (d_v_scale d) (d_v d)) (d_Nv d) bs D) (\<lambda>f_fwd.
        if d_grad_type d = ''f_fwd'' then Inr (f_fwd, None)
        else
          bnd (forward_gradient grad_y (d_dvf_hat d) (smul (d_v_scale d) (d_v d)) (d_Nv d) bs D) (\<lambda>f_hat_fwd.
          bnd (vjp (d_y_hat d) grad_y) (\<lambda>g.
          if d_grad_type d = ''f_hat_true'' then Inr (sdiv g (real (d_Nv d)), None)
          else if d_grad_type d = ''cv_fwd'' then
            bnd (tsub f_hat_fwd (sdiv g (real (d_Nv d)))) (\<lambda>diff.
            bnd (tsub f_fwd diff) (\<lambda>cv_fwd.
            Inr (cv_fwd, None)))
          else Inl NotImplementedError))))"
  by (simp add: backward_def forward_def Let_def cong: if_cong)

lemma backward_not_2d:
  "\<forall>bs D. shape x \<noteq> [bs, D] \<Longrightarrow> backward (fst (forward x d)) grad_y = Inl ValueError"
  by (auto simp: backward_def forward_def Let_def split: list.splits)

lemma backward_cases:
  obtains (two) bs D where "shape x = [bs, D]"
  | (other) "\<And>d grad_y. backward (fst (forward x d)) grad_y = Inl ValueError"
  using backward_not_2d [of x] by blast

lemma map2_sub_assoc:
  "length a = length b \<Longrightarrow> length b = length c \<Longrightarrow>
   map2 (-) a (map2 (-) b c) = map2 (+) (map2 (-) a b) (c :: real list)"
  by (induction a b c rule: list_induct3) simp_all

lemma sdiv_shape [simp]: "shape (sdiv t c) = shape t"
  by (simp add: sdiv_def)

lemma sdiv_well_formed [simp]: "well_formed (sdiv t c) = well_formed t"
  by (simp add: sdiv_def well_formed_def)

lemma numel_append [simp]: "numel (s @ t) = numel s * numel t"
  by (simp add: numel_def)

lemma row_index_bound: "q < m \<Longrightarrow> k < n \<Longrightarrow> q * n + k < m * (n::nat)"
proof -
  assume "q < m" "k < n"
  then have "q * n + k < q * n + n" by simp
  also have "\<dots> = Suc q * n" by simp
  also have "\<dots> \<le> m * n" using \<open>q < m\<close> by (intro mult_le_mono1) simp
  finally show ?thesis .
qed

lemma sum_last_nth:
  assumes "shape t = s @ [n]" "q < numel s"
  shows "shape (sum_last t) = s @ [1]" "data (sum_last t) ! q = (\<Sum>k<n. data t ! (q * n + k))"
  using assms by (simp_all add: sum_last_def sum_list_upt)

lemma forward_gradient_entries:
  assumes v: "shape v = [Nv * bs, D]" "well_formed v"
    and gy: "shape grad_y = [Nv * bs, M]" "well_formed grad_y"
    and dvf: "shape dvf = [Nv * bs, M]" "well_formed dvf"
  shows "\<exists>g. forward_gradient grad_y dvf (smul c v) Nv bs D = Inr g
     \<and> shape g = [bs, D] \<and> well_formed g
     \<and> (\<forall>i<bs. \<forall>j<D. at2 g i j =
           (\<Sum>k<Nv. (\<Sum>m<M. at2 grad_y (k * bs + i) m * at2 dvf (k * bs + i) m)
                        * (c * at2 v (k * bs + i) j)) / real Nv)"
proof -
  let ?w = "smul c v"
  let ?g = "Tensor [bs, D]
      (map (\<lambda>q. sum_list (map (\<lambda>k.
                   sum_list (map (\<lambda>m. data grad_y ! ((k * bs + q div D) * M + m) * data dvf ! ((k * bs + q div D) * M + m)) [0..<M])
                   * data ?w ! (k * (bs * D) + q)) [0..<Nv]) / real Nv)
           [0..<bs * D])"
  have fg: "forward_gradient grad_y dvf ?w Nv bs D = Inr ?g"
    by (rule forward_gradient_closed) (simp_all add: gy dvf v)
  have lenv: "length (data v) = Nv * bs * D"
    using v by (simp add: well_formed_def)
  have entry: "at2 ?g i j =
      (\<Sum>k<Nv. (\<Sum>m<M. at2 grad_y (k * bs + i) m * at2 dvf (k * bs + i) m)
                            * (c * at2 v (k * bs + i) j)) / real Nv"
    if "i < bs" "j < D" for i j
  proof -
    have q: "i * D + j < bs * D" by (rule row_index_bound [OF that])
    have dv: "(i * D + j) div D = i" using that(2) by simp
    have w: "data ?w ! (k * (bs * D) + (i * D + j)) = c * data v ! ((k * bs + i) * D + j)"
      if "k < Nv" for k
    proof -
      have e: "k * (bs * D) + (i * D + j) = (k * bs + i) * D + j"
        by (simp add: algebra_simps)
      have "k * (bs * D) + (i * D + j) < Nv * (bs * D)"
        by (rule row_index_bound [OF that q])
      then have "(k * bs + i) * D + j < length (data v)"
        using lenv e by (simp add: mult.assoc)
      then have "data ?w ! ((k * bs + i) * D + j) = c * data v ! ((k * bs + i) * D + j)"
        by (rule smul_nth)
      then show ?thesis by (simp only: e)
    qed
    have "at2 ?g i j = sum_list (map (\<lambda>k.
                   sum_list (map (\<lambda>m. data grad_y ! ((k * bs + i) * M + m) * data dvf ! ((k * bs + i) * M + m)) [0..<M])
                   * data ?w ! (k * (bs * D) + (i * D + j))) [0..<Nv]) / real Nv"
      using q dv by (simp add: at2_def)
    also have "\<dots> = (\<Sum>k<Nv. (\<Sum>m<M. data grad_y ! ((k * bs + i) * M + m) * data dvf ! ((k * bs + i) * M + m))
                   * data ?w ! (k * (bs * D) + (i * D + j))) / real Nv"
      by (simp only: sum_list_upt)
    also have "\<dots> = (\<Sum>k<Nv. (\<Sum>m<M. at2 grad_y (k * bs + i) m * at2 dvf (k * bs + i) m)
                            * (c * at2 v (k * bs + i) j)) / real Nv"
      using w by (simp add: at2_def gy dvf v)
    finally show ?thesis .
  qed
  show ?thesis
    using fg entry by (intro exI [of _ ?g]) (simp add: well_formed_def)
qed

lemma at2_sdiv:
  "shape t = [bs, D] \<Longrightarrow> well_formed t \<Longrightarrow> i < bs \<Longrightarrow> j < D \<Longrightarrow> at2 (sdiv t c) i j = at2 t i j / c"
  using row_index_bound [of i bs j D] by (simp add: at2_def sdiv_def well_formed_def)

lemma at2_tsub:
  assumes "shape a = [bs, D]" "well_formed a" "shape b = [bs, D]" "well_formed b"
  shows "\<exists>t. tsub a b = Inr t \<and> shape t = [bs, D] \<and> well_formed t
      \<and> (\<forall>i<bs. \<forall>j<D. at2 t i j = at2 a i j - at2 b i j)"
proof -
  let ?t = "Tensor [bs, D] (map2 (-) (data a) (data b))"
  have len: "length (data a) = bs * D" "length (data b) = bs * D"
    using assms by (simp_all add: well_formed_def)
  have 1: "tsub a b = Inr ?t"
    using bop_same_shape [OF assms(2,4), of "(-)"] assms(1,3) by (simp add: tsub_def)
  have "at2 ?t i j = at2 a i j - at2 b i j" if "i < bs" "j < D" for i j
    using row_index_bound [OF that] len assms(1,3) by (simp add: at2_def)
  then show ?thesis using 1 len by (intro exI [of _ ?t]) (simp add: well_formed_def)
qed

section \<open>Lemmas on compressed sparse rows and the task conversions\<close>


lemma offsets_length [simp]: "length (offsets rows) = Suc (length rows)"
  by (simp add: offsets_def)



















lemma isclose_refl: "isclose r r"
  by (simp add: isclose_def)


lemma int_of_float_tensor [simp]:
  "float_of_tensor (tensor_of_float dt r) = Inr (round_to dt r)"
  "int_of_tensor (tensor_of_int k) = Inr k"
  by (simp_all add: float_of_tensor_def int_of_tensor_def tensor_of_float_def tensor_of_int_def)






section \<open>Properties of the gradient-estimation layer\<close>

text \<open>
  C1. With \<open>grad_type = "f_fwd"\<close>, a two-dimensional input \<open>x\<close> of shape \<open>[bs, D]\<close>,
  \<open>Nv \<ge> 1\<close> probes, \<open>v\<close> of shape \<open>[Nv * bs, D]\<close> and \<open>grad_y\<close>, \<open>dvf\<close> of shape
  \<open>[Nv * bs, M]\<close>, \<open>backward\<close> returns a gradient of the shape of \<open>x\<close> whose entry \<open>[i, j]\<close>
  is the mean over the \<open>Nv\<close> replicas \<open>k\<close> of (\<open>grad_y\<close> dot \<open>dvf\<close> in row \<open>k * bs + i\<close>) times
  the scaled probe entry \<open>v_scale * v[k * bs + i, j]\<close>; with \<open>Nv = 1\<close> it is that product
  for the sample itself.
\<close>

theorem backward_f_fwd:
  assumes gt: "d_grad_type d = ''f_fwd''"
    and x: "shape x = [bs, D]"
    and Nv: "1 \<le> d_Nv d"
    and v: "shape (d_v d) = [d_Nv d * bs, D]" "well_formed (d_v d)"
    and gy: "shape grad_y = [d_Nv d * bs, M]" "well_formed grad_y"
    and dvf: "shape (d_dvf d) = [d_Nv d * bs, M]" "well_formed (d_dvf d)"
  shows "\<exists>g. backward (fst (forward x d)) grad_y = Inr (g, None)
     \<and> shape g = shape x \<and> well_formed g
     \<and> (\<forall>i<bs. \<forall>j<D. at2 g i j =
           (\<Sum>k<d_Nv d. (\<Sum>m<M. at2 grad_y (k * bs + i) m * at2 (d_dvf d) (k * bs + i) m)
                            * (d_v_scale d * at2 (d_v d) (k * bs + i) j)) / real (d_Nv d))
     \<and> (d_Nv d = 1 \<longrightarrow> (\<forall>i<bs. \<forall>j<D. at2 g i j =
           (\<Sum>m<M. at2 grad_y i m * at2 (d_dvf d) i m) * (d_v_scale d * at2 (d_v d) i j)))"
proof -
  let ?Nv = "d_Nv d"
  let ?w = "smul (d_v_scale d) (d_v d)"
  let ?g = "Tensor [bs, D]
      (map (\<lambda>q. sum_list (map (\<lambda>k.
                   sum_list (map (\<lambda>m. data grad_y ! ((k * bs + q div D) * M + m) * data (d_dvf d) ! ((k * bs + q div D) * M + m)) [0..<M])
                   * data ?w ! (k * (bs * D) + q)) [0..<?Nv]) / real ?Nv)
           [0..<bs * D])"
  have fg: "forward_gradient grad_y (d_dvf d) ?w ?Nv bs D = Inr ?g"
    by (rule forward_gradient_closed) (simp_all add: gy dvf v)
  have bw: "backward (fst (forward x d)) grad_y = Inr (?g, None)"
    using gt x fg by (simp add: backward_def forward_def)
  have lenv: "length (data (d_v d)) = ?Nv * bs * D"
    using v by (simp add: well_formed_def)
  have entry: "at2 ?g i j =
      (\<Sum>k<?Nv. (\<Sum>m<M. at2 grad_y (k * bs + i) m * at2 (d_dvf d) (k * bs + i) m)
                            * (d_v_scale d * at2 (d_v d) (k * bs + i) j)) / real ?Nv"
    if "i < bs" "j < D" for i j
  proof -
    have "i * D + j < i * D + D" using that by simp
    also have "\<dots> = Suc i * D" by simp
    also have "\<dots> \<le> bs * D" using that(1) by (intro mult_le_mono1) simp
    finally have q: "i * D + j < bs * D" .
    have dv: "(i * D + j) div D = i" using that(2) by simp
    have w: "data ?w ! (k * (bs * D) + (i * D + j)) = d_v_scale d * data (d_v d) ! ((k * bs + i) * D + j)"
      if "k < ?Nv" for k
    proof -
      have e: "k * (bs * D) + (i * D + j) = (k * bs + i) * D + j"
        by (simp add: algebra_simps)
      have "k * (bs * D) + (i * D + j) < k * (bs * D) + bs * D" using q by simp
      also have "\<dots> = Suc k * (bs * D)" by simp
      also have "\<dots> \<le> ?Nv * (bs * D)" using that by (intro mult_le_mono1) simp
      finally have "(k * bs + i) * D + j < length (data (d_v d))"
        using lenv e by (simp add: mult.assoc)
      then have "data ?w ! ((k * bs + i) * D + j) = d_v_scale d * data (d_v d) ! ((k * bs + i) * D + j)"
        by (rule smul_nth)
      then show ?thesis by (simp only: e)
    qed
    have "at2 ?g i j = sum_list (map (\<lambda>k.
                   sum_list (map (\<lambda>m. data grad_y ! ((k * bs + i) * M + m) * data (d_dvf d) ! ((k * bs + i) * M + m)) [0..<M])
                   * data ?w ! (k * (bs * D) + (i * D + j))) [0..<?Nv]) / real ?Nv"
      using q dv by (simp add: at2_def)
    also have "\<dots> = (\<Sum>k<?Nv. (\<Sum>m<M. data grad_y ! ((k * bs + i) * M + m) * data (d_dvf d) ! ((k * bs + i) * M + m))
                   * data ?w ! (k * (bs * D) + (i * D + j))) / real ?Nv"
      by (simp only: sum_list_upt)
    also have "\<dots> = (\<Sum>k<?Nv. (\<Sum>m<M. at2 grad_y (k * bs + i) m * at2 (d_dvf d) (k * bs + i) m)
                            * (d_v_scale d * at2 (d_v d) (k * bs + i) j)) / real ?Nv"
      using w by (simp add: at2_def gy dvf v)
    finally show ?thesis .
  qed
  have one: "at2 ?g i j = (\<Sum>m<M. at2 grad_y i m * at2 (d_dvf d) i m) * (d_v_scale d * at2 (d_v d) i j)"
    if "?Nv = 1" "i < bs" "j < D" for i j
    using entry [OF that(2,3)] that(1) by simp
  show ?thesis
    using bw x entry one by (intro exI [of _ ?g]) (simp add: well_formed_def)
qed

theorem backward_f_fwd_witness:
  "\<exists>g. backward (fst (forward ex_x (ex_d ''f_fwd''))) ex_grad_y = Inr (g, None)
     \<and> shape g = [1, 2] \<and> at2 g 0 0 = 3 \<and> at2 g 0 1 = 4"
proof -
  have "\<exists>g. backward (fst (forward ex_x (ex_d ''f_fwd''))) ex_grad_y = Inr (g, None)
     \<and> shape g = shape ex_x \<and> well_formed g
     \<and> (\<forall>i<1. \<forall>j<2. at2 g i j =
           (\<Sum>k<d_Nv (ex_d ''f_fwd''). (\<Sum>m<1. at2 ex_grad_y (k * 1 + i) m * at2 (d_dvf (ex_d ''f_fwd'')) (k * 1 + i) m)
                            * (d_v_scale (ex_d ''f_fwd'') * at2 (d_v (ex_d ''f_fwd'')) (k * 1 + i) j)) / real (d_Nv (ex_d ''f_fwd'')))
     \<and> (d_Nv (ex_d ''f_fwd'') = 1 \<longrightarrow> (\<forall>i<1. \<forall>j<2. at2 g i j =
           (\<Sum>m<1. at2 ex_grad_y i m * at2 (d_dvf (ex_d ''f_fwd'')) i m) * (d_v_scale (ex_d ''f_fwd'') * at2 (d_v (ex_d ''f_fwd'')) i j)))"
    by (rule backward_f_fwd) (simp_all add: ex_d_def ex_x_def ex_v_def ex_grad_y_def well_formed_def)
  then obtain g where g: "backward (fst (forward ex_x (ex_d ''f_fwd''))) ex_grad_y = Inr (g, None)"
    "shape g = shape ex_x"
    "\<forall>i<1. \<forall>j<2. at2 g i j =
           (\<Sum>k<d_Nv (ex_d ''f_fwd''). (\<Sum>m<1. at2 ex_grad_y (k * 1 + i) m * at2 (d_dvf (ex_d ''f_fwd'')) (k * 1 + i) m)
                            * (d_v_scale (ex_d ''f_fwd'') * at2 (d_v (ex_d ''f_fwd'')) (k * 1 + i) j)) / real (d_Nv (ex_d ''f_fwd''))"
    by blast
  have "at2 g 0 0 = 3" "at2 g 0 1 = 4"
    using g(3) [rule_format, of 0 0] g(3) [rule_format, of 0 1]
    by (simp_all add: ex_d_def ex_v_def ex_grad_y_def at2_def lessThan_Suc eval_nat_numeral)
  then show ?thesis using g(1,2) by (auto simp: ex_x_def)
qed


text \<open>
  C8. \<open>forward\<close> returns the value of \<open>d["y"]\<close>, a plain tensor without a graph, and
  returns the same value whatever \<open>grad_type\<close> the dictionary holds.
\<close>

theorem forward_value:
  "snd (forward x d) = val (d_y d) \<and> snd (forward x (d\<lparr>d_grad_type := g\<rparr>)) = snd (forward x d)"
  by (simp add: forward_def)

text \<open>
  C6. For a positive \<open>eps\<close>, when the evaluations of \<open>f\<close> at \<open>x\<close>, \<open>x + eps * v\<close> and
  \<open>x - eps * v\<close> return, \<open>jvp\<close> returns \<open>f(x)\<close> together with
  \<open>(f(x + eps * v) - f(x)) / eps\<close> in mode \<open>forwardFD\<close> and with
  \<open>(f(x + eps * v) - f(x - eps * v)) / (2 * eps)\<close> in mode \<open>centralFD\<close>; on tensors of one
  shape the sums, differences and quotients are taken entry by entry.
\<close>

theorem jvp_finite_differences:
  assumes "0 < eps"
    and "call f x = Inr y"
    and "tadd x (smul eps v) = Inr x_plus" "call f x_plus = Inr y_plus"
    and "tsub x (smul eps v) = Inr x_minus" "call f x_minus = Inr y_minus"
    and "tsub y_plus y = Inr fd" "tsub y_plus y_minus = Inr cd"
  shows "jvp f x v ''forwardFD'' eps = Inr (y, Some (sdiv fd eps))
       \<and> jvp f x v ''centralFD'' eps = Inr (y, Some (sdiv cd (2 * eps)))
       \<and> (well_formed x \<and> well_formed v \<and> shape v = shape x \<longrightarrow>
            x_plus = Tensor (shape x) (map2 (\<lambda>a b. a + eps * b) (data x) (data v))
          \<and> x_minus = Tensor (shape x) (map2 (\<lambda>a b. a - eps * b) (data x) (data v)))
       \<and> (well_formed y \<and> well_formed y_plus \<and> well_formed y_minus
            \<and> shape y_plus = shape y \<and> shape y_minus = shape y \<longrightarrow>
            sdiv fd eps = Tensor (shape y) (map2 (\<lambda>a b. (a - b) / eps) (data y_plus) (data y))
          \<and> sdiv cd (2 * eps) = Tensor (shape y) (map2 (\<lambda>a b. (a - b) / (2 * eps)) (data y_plus) (data y_minus)))"
proof -
  have fd: "jvp f x v ''forwardFD'' eps = Inr (y, Some (sdiv fd eps))"
    using assms by (simp add: jvp_def)
  have cd: "jvp f x v ''centralFD'' eps = Inr (y, Some (sdiv cd (2 * eps)))"
    using assms by (simp add: jvp_def)
  have map2_smul: "map2 g (data x) (data (smul eps v)) = map2 (\<lambda>a b. g a (eps * b)) (data x) (data v)" for g :: "real \<Rightarrow> real \<Rightarrow> real"
    by (simp add: smul_def zip_map2 case_prod_unfold)
  have pts: "x_plus = Tensor (shape x) (map2 (\<lambda>a b. a + eps * b) (data x) (data v))
          \<and> x_minus = Tensor (shape x) (map2 (\<lambda>a b. a - eps * b) (data x) (data v))"
    if "well_formed x" "well_formed v" "shape v = shape x"
    using that assms(3,5) bop_same_shape [of x "smul eps v"]
    by (simp add: tadd_def tsub_def map2_smul)
  have quot: "sdiv fd eps = Tensor (shape y) (map2 (\<lambda>a b. (a - b) / eps) (data y_plus) (data y))
          \<and> sdiv cd (2 * eps) = Tensor (shape y) (map2 (\<lambda>a b. (a - b) / (2 * eps)) (data y_plus) (data y_minus))"
    if "well_formed y" "well_formed y_plus" "well_formed y_minus" "shape y_plus = shape y" "shape y_minus = shape y"
    using that assms(7,8) bop_same_shape [of y_plus y "(-)"] bop_same_shape [of y_plus y_minus "(-)"]
    by (auto simp: tsub_def sdiv_def case_prod_unfold)
  show ?thesis using fd cd pts quot by blast
qed

theorem jvp_finite_differences_witness:
  "jvp sphere (Tensor [1, 2] [3, 4]) (Tensor [1, 2] [1, 0]) ''forwardFD'' (1 / 10)
     = Inr (Tensor [1, 1] [25], Some (Tensor [1, 1] [61 / 10]))
   \<and> jvp sphere (Tensor [1, 2] [3, 4]) (Tensor [1, 2] [1, 0]) ''centralFD'' (1 / 10)
     = Inr (Tensor [1, 1] [25], Some (Tensor [1, 1] [6]))"
proof -
  have e: "(0::real) < 1 / 10" by simp
  have y: "call sphere (Tensor [1, 2] [3, 4]) = Inr (Tensor [1, 1] [25])" by code_simp
  have xp: "tadd (Tensor [1, 2] [3, 4]) (smul (1 / 10) (Tensor [1, 2] [1, 0])) = Inr (Tensor [1, 2] [31 / 10, 4])"
    by code_simp
  have yp: "call sphere (Tensor [1, 2] [31 / 10, 4]) = Inr (Tensor [1, 1] [2561 / 100])" by code_simp
  have xm: "tsub (Tensor [1, 2] [3, 4]) (smul (1 / 10) (Tensor [1, 2] [1, 0])) = Inr (Tensor [1, 2] [29 / 10, 4])"
    by code_simp
  have ym: "call sphere (Tensor [1, 2] [29 / 10, 4]) = Inr (Tensor [1, 1] [2441 / 100])" by code_simp
  have fd: "tsub (Tensor [1, 1] [2561 / 100]) (Tensor [1, 1] [25]) = Inr (Tensor [1, 1] [61 / 100])" by code_simp
  have cd: "tsub (Tensor [1, 1] [2561 / 100]) (Tensor [1, 1] [2441 / 100]) = Inr (Tensor [1, 1] [120 / 100])" by code_simp
  from jvp_finite_differences [OF e y xp yp xm ym fd cd] show ?thesis
    by (simp add: sdiv_def)
qed

text \<open>
  C2. With \<open>grad_type = "cv_fwd"\<close>, the shapes of C1 for \<open>x\<close>, \<open>v\<close>, \<open>grad_y\<close>, \<open>dvf\<close> and
  \<open>dvf_hat\<close>, and an autograd gradient \<open>h\<close> of \<open>y_hat\<close> that has the shape of \<open>x\<close>, \<open>backward\<close>
  returns \<open>f_fwd - (f_hat_fwd - f_hat_true)\<close>, which entry by entry is also
  \<open>f_fwd - f_hat_fwd + f_hat_true\<close>. Here \<open>f_fwd\<close> is the mean over the \<open>Nv\<close> replicas of
  (\<open>grad_y\<close> dot \<open>dvf\<close>) times the scaled probe, \<open>f_hat_fwd\<close> the same mean with \<open>dvf_hat\<close> in the
  place of \<open>dvf\<close>, and \<open>f_hat_true\<close> is \<open>h\<close> divided by \<open>Nv\<close>; they are what \<open>backward\<close> returns
  under \<open>"f_fwd"\<close>, under \<open>"f_fwd"\<close> with \<open>dvf_hat\<close> for \<open>dvf\<close>, and under \<open>"f_hat_true"\<close>.
\<close>

theorem backward_cv_fwd:
  assumes gt: "d_grad_type d = ''cv_fwd''"
    and x: "shape x = [bs, D]"
    and Nv: "1 \<le> d_Nv d"
    and v: "shape (d_v d) = [d_Nv d * bs, D]" "well_formed (d_v d)"
    and gy: "shape grad_y = [d_Nv d * bs, M]" "well_formed grad_y"
    and dvf: "shape (d_dvf d) = [d_Nv d * bs, M]" "well_formed (d_dvf d)"
    and dvf_hat: "shape (d_dvf_hat d) = [d_Nv d * bs, M]" "well_formed (d_dvf_hat d)"
    and h: "vjp (d_y_hat d) grad_y = Inr h" "shape h = shape x" "well_formed h"
  shows "\<exists>cv f_fwd f_hat_fwd f_hat_true.
      backward (fst (forward x d)) grad_y = Inr (cv, None)
    \<and> backward (fst (forward x (d\<lparr>d_grad_type := ''f_fwd''\<rparr>))) grad_y = Inr (f_fwd, None)
    \<and> backward (fst (forward x (d\<lparr>d_grad_type := ''f_fwd'', d_dvf := d_dvf_hat d\<rparr>))) grad_y
        = Inr (f_hat_fwd, None)
    \<and> backward (fst (forward x (d\<lparr>d_grad_type := ''f_hat_true''\<rparr>))) grad_y = Inr (f_hat_true, None)
    \<and> f_hat_true = sdiv h (real (d_Nv d))
    \<and> bnd (tsub f_hat_fwd f_hat_true) (\<lambda>diff. tsub f_fwd diff) = Inr cv
    \<and> bnd (tsub f_fwd f_hat_fwd) (\<lambda>diff. tadd diff f_hat_true) = Inr cv
    \<and> shape cv = shape x \<and> well_formed cv
    \<and> (\<forall>i<bs. \<forall>j<D.
          at2 f_fwd i j =
            (\<Sum>k<d_Nv d. (\<Sum>m<M. at2 grad_y (k * bs + i) m * at2 (d_dvf d) (k * bs + i) m)
                            * (d_v_scale d * at2 (d_v d) (k * bs + i) j)) / real (d_Nv d)
        \<and> at2 f_hat_fwd i j =
            (\<Sum>k<d_Nv d. (\<Sum>m<M. at2 grad_y (k * bs + i) m * at2 (d_dvf_hat d) (k * bs + i) m)
                            * (d_v_scale d * at2 (d_v d) (k * bs + i) j)) / real (d_Nv d)
        \<and> at2 f_hat_true i j = at2 h i j / real (d_Nv d)
        \<and> at2 cv i j = at2 f_fwd i j - (at2 f_hat_fwd i j - at2 f_hat_true i j)
        \<and> at2 cv i j = at2 f_fwd i j - at2 f_hat_fwd i j + at2 f_hat_true i j)"
proof -
  let ?w = "smul (d_v_scale d) (d_v d)"
  let ?c = "sdiv h (real (d_Nv d))"
  from forward_gradient_entries [OF v gy dvf, of "d_v_scale d"] obtain a where
      a: "forward_gradient grad_y (d_dvf d) ?w (d_Nv d) bs D = Inr a"
    and sa: "shape a = [bs, D]" "well_formed a"
    and ea: "\<forall>i<bs. \<forall>j<D. at2 a i j =
            (\<Sum>k<d_Nv d. (\<Sum>m<M. at2 grad_y (k * bs + i) m * at2 (d_dvf d) (k * bs + i) m)
                            * (d_v_scale d * at2 (d_v d) (k * bs + i) j)) / real (d_Nv d)"
    by blast
  from forward_gradient_entries [OF v gy dvf_hat, of "d_v_scale d"] obtain b where
      b: "forward_gradient grad_y (d_dvf_hat d) ?w (d_Nv d) bs D = Inr b"
    and sb: "shape b = [bs, D]" "well_formed b"
    and eb: "\<forall>i<bs. \<forall>j<D. at2 b i j =
            (\<Sum>k<d_Nv d. (\<Sum>m<M. at2 grad_y (k * bs + i) m * at2 (d_dvf_hat d) (k * bs + i) m)
                            * (d_v_scale d * at2 (d_v d) (k * bs + i) j)) / real (d_Nv d)"
    by blast
  have sh: "shape h = [bs, D]" using h(2) x by simp
  have sc: "shape ?c = [bs, D]" "well_formed ?c" using sh h(3) by simp_all
  have ec: "at2 ?c i j = at2 h i j / real (d_Nv d)" if "i < bs" "j < D" for i j
    by (rule at2_sdiv [OF sh h(3) that])
  from at2_tsub [OF sb sc] obtain t where
      t: "tsub b ?c = Inr t" and st: "shape t = [bs, D]" "well_formed t"
    and et: "\<forall>i<bs. \<forall>j<D. at2 t i j = at2 b i j - at2 ?c i j"
    by blast
  from at2_tsub [OF sa st] obtain cv where
      cv: "tsub a t = Inr cv" and scv: "shape cv = [bs, D]" "well_formed cv"
    and ecv: "\<forall>i<bs. \<forall>j<D. at2 cv i j = at2 a i j - at2 t i j"
    by blast
  have len: "length (data a) = bs * D" "length (data b) = bs * D" "length (data ?c) = bs * D"
    using sa sb sc unfolding well_formed_def by simp_all
  have t': "t = Tensor [bs, D] (map2 (-) (data b) (data ?c))"
    using t bop_same_shape [OF sb(2) sc(2), of "(-)"] sb(1) sc(1) by (simp add: tsub_def)
  have cv': "cv = Tensor [bs, D] (map2 (-) (data a) (map2 (-) (data b) (data ?c)))"
    using cv bop_same_shape [OF sa(2) st(2), of "(-)"] sa(1) st(1) t' by (simp add: tsub_def)
  let ?u = "Tensor [bs, D] (map2 (-) (data a) (data b))"
  have u: "tsub a b = Inr ?u"
    using bop_same_shape [OF sa(2) sb(2), of "(-)"] sa(1) sb(1) by (simp add: tsub_def)
  have su: "shape ?u = [bs, D]" "well_formed ?u"
    using len by (simp_all add: well_formed_def)
  have "tadd ?u ?c = Inr (Tensor [bs, D] (map2 (+) (map2 (-) (data a) (data b)) (data ?c)))"
    using bop_same_shape [OF su(2) sc(2), of "(+)"] sc(1) by (simp add: tadd_def)
  also have "map2 (+) (map2 (-) (data a) (data b)) (data ?c) = map2 (-) (data a) (map2 (-) (data b) (data ?c))"
    using map2_sub_assoc [of "data a" "data b" "data ?c"] len by simp
  finally have id: "bnd (tsub a b) (\<lambda>diff. tadd diff ?c) = Inr cv"
    using u cv' by simp
  have 0: "backward (fst (forward x d)) grad_y = Inr (cv, None)"
    using gt a b h(1) t cv by (simp add: backward_2d [OF x])
  have 1: "backward (fst (forward x (d\<lparr>d_grad_type := ''f_fwd''\<rparr>))) grad_y = Inr (a, None)"
    using a by (simp add: backward_2d [OF x])
  have 2: "backward (fst (forward x (d\<lparr>d_grad_type := ''f_fwd'', d_dvf := d_dvf_hat d\<rparr>))) grad_y = Inr (b, None)"
    using b by (simp add: backward_2d [OF x])
  have 3: "backward (fst (forward x (d\<lparr>d_grad_type := ''f_hat_true''\<rparr>))) grad_y = Inr (?c, None)"
    using a b h(1) by (simp add: backward_2d [OF x])
  have 4: "bnd (tsub b ?c) (\<lambda>diff. tsub a diff) = Inr cv"
    using t cv by simp
  have 5: "shape cv = shape x" using scv x by simp
  have 6: "\<forall>i<bs. \<forall>j<D.
          at2 a i j =
            (\<Sum>k<d_Nv d. (\<Sum>m<M. at2 grad_y (k * bs + i) m * at2 (d_dvf d) (k * bs + i) m)
                            * (d_v_scale d * at2 (d_v d) (k * bs + i) j)) / real (d_Nv d)
        \<and> at2 b i j =
            (\<Sum>k<d_Nv d. (\<Sum>m<M. at2 grad_y (k * bs + i) m * at2 (d_dvf_hat d) (k * bs + i) m)
                            * (d_v_scale d * at2 (d_v d) (k * bs + i) j)) / real (d_Nv d)
        \<and> at2 ?c i j = at2 h i j / real (d_Nv d)
        \<and> at2 cv i j = at2 a i j - (at2 b i j - at2 ?c i j)
        \<and> at2 cv i j = at2 a i j - at2 b i j + at2 ?c i j"
  proof (intro allI impI)
    fix i j assume ij: "i < bs" "j < D"
    have "at2 cv i j = at2 a i j - (at2 b i j - at2 ?c i j)"
      using ecv et ij by simp
    then show "at2 a i j =
            (\<Sum>k<d_Nv d. (\<Sum>m<M. at2 grad_y (k * bs + i) m * at2 (d_dvf d) (k * bs + i) m)
                            * (d_v_scale d * at2 (d_v d) (k * bs + i) j)) / real (d_Nv d)
        \<and> at2 b i j =
            (\<Sum>k<d_Nv d. (\<Sum>m<M. at2 grad_y (k * bs + i) m * at2 (d_dvf_hat d) (k * bs + i) m)
                            * (d_v_scale d * at2 (d_v d) (k * bs + i) j)) / real (d_Nv d)
        \<and> at2 ?c i j = at2 h i j / real (d_Nv d)
        \<and> at2 cv i j = at2 a i j - (at2 b i j - at2 ?c i j)
        \<and> at2 cv i j = at2 a i j - at2 b i j + at2 ?c i j"
      using ea eb ec ij by simp
  qed
  show ?thesis
    by (intro exI [of _ cv] exI [of _ a] exI [of _ b] exI [of _ ?c] conjI refl 0 1 2 3 4 id 5 scv(2) 6)
qed

theorem backward_cv_fwd_witness:
  "backward (fst (forward ex_x (ex_d ''cv_fwd''))) ex_grad_y = Inr (Tensor [1, 2] [11 / 2, 17 / 2], None)"
proof -
  let ?d = "ex_d ''cv_fwd''"
  have g: "d_grad_type ?d = ''cv_fwd''" "shape ex_x = [1, 2]" "1 \<le> d_Nv ?d"
    "shape (d_v ?d) = [d_Nv ?d * 1, 2]" "well_formed (d_v ?d)"
    "shape ex_grad_y = [d_Nv ?d * 1, 1]" "well_formed ex_grad_y"
    "shape (d_dvf ?d) = [d_Nv ?d * 1, 1]" "well_formed (d_dvf ?d)"
    "shape (d_dvf_hat ?d) = [d_Nv ?d * 1, 1]" "well_formed (d_dvf_hat ?d)"
    "vjp (d_y_hat ?d) ex_grad_y = Inr (Tensor [1, 2] [10, 18])"
    "shape (Tensor [1, 2] [10, 18]) = shape ex_x" "well_formed (Tensor [1, 2] [10, 18])"
    by (simp_all add: ex_d_def ex_x_def ex_v_def ex_grad_y_def well_formed_def)
  from backward_cv_fwd [OF g] obtain cv f_fwd f_hat_fwd f_hat_true where
      bw: "backward (fst (forward ex_x ?d)) ex_grad_y = Inr (cv, None)"
    and s: "shape cv = shape ex_x" "well_formed cv"
    and e: "\<forall>i<1. \<forall>j<2.
          at2 f_fwd i j =
            (\<Sum>k<d_Nv ?d. (\<Sum>m<1. at2 ex_grad_y (k * 1 + i) m * at2 (d_dvf ?d) (k * 1 + i) m)
                            * (d_v_scale ?d * at2 (d_v ?d) (k * 1 + i) j)) / real (d_Nv ?d)
        \<and> at2 f_hat_fwd i j =
            (\<Sum>k<d_Nv ?d. (\<Sum>m<1. at2 ex_grad_y (k * 1 + i) m * at2 (d_dvf_hat ?d) (k * 1 + i) m)
                            * (d_v_scale ?d * at2 (d_v ?d) (k * 1 + i) j)) / real (d_Nv ?d)
        \<and> at2 f_hat_true i j = at2 (Tensor [1, 2] [10, 18]) i j / real (d_Nv ?d)
        \<and> at2 cv i j = at2 f_fwd i j - (at2 f_hat_fwd i j - at2 f_hat_true i j)
        \<and> at2 cv i j = at2 f_fwd i j - at2 f_hat_fwd i j + at2 f_hat_true i j"
    by blast
  have "at2 cv 0 0 = 11 / 2" "at2 cv 0 1 = 17 / 2"
    using e [rule_format, of 0 0] e [rule_format, of 0 1]
    by (simp_all add: ex_d_def ex_v_def ex_grad_y_def at2_def lessThan_Suc eval_nat_numeral)
  then have d: "data cv ! 0 = 11 / 2" "data cv ! 1 = 17 / 2"
    using s(1) by (simp_all add: at2_def ex_x_def)
  have l: "length (data cv) = 2"
    using s by (simp add: well_formed_def ex_x_def)
  then obtain p q where pq: "data cv = [p, q]"
    by (auto simp: length_Suc_conv eval_nat_numeral)
  then have "data cv = [11 / 2, 17 / 2]" using d by simp
  then have "cv = Tensor [1, 2] [11 / 2, 17 / 2]"
    using s(1) by (simp add: tensor.expand ex_x_def)
  then show ?thesis using bw by simp
qed

text \<open>
  C3, as amended. Under \<open>"f_true"\<close> with a two-dimensional \<open>x\<close>, \<open>backward\<close> always returns,
  and an exception of the exact gradient of \<open>y\<close> is replaced by zeros of the shape of
  \<open>x\<close>. Under \<open>"f_hat_true"\<close> and \<open>"cv_fwd"\<close> an exception of the exact gradient of
  \<open>y_hat\<close> is not caught: \<open>backward\<close> raises, and raises that very exception when the two
  forward gradients before it were computed.
\<close>

theorem exact_gradient_failure:
  "(d_grad_type d = ''f_true'' \<and> shape x = [bs, D] \<longrightarrow>
       (\<exists>g. backward (fst (forward x d)) grad_y = Inr (g, None))
     \<and> (\<forall>e. vjp (d_y d) grad_y = Inl e \<longrightarrow>
           backward (fst (forward x d)) grad_y = Inr (zeros_like x, None)))
   \<and> (d_grad_type d \<in> {''f_hat_true'', ''cv_fwd''} \<and> vjp (d_y_hat d) grad_y = Inl e \<longrightarrow>
       (\<exists>e'. backward (fst (forward x d)) grad_y = Inl e')
     \<and> (\<forall>r r'. backward (fst (forward x (d\<lparr>d_grad_type := ''f_fwd''\<rparr>))) grad_y = Inr r
            \<and> backward (fst (forward x (d\<lparr>d_grad_type := ''f_fwd'', d_dvf := d_dvf_hat d\<rparr>))) grad_y = Inr r'
           \<longrightarrow> backward (fst (forward x d)) grad_y = Inl e))"
proof (intro conjI impI allI; (elim conjE)?)
  assume "d_grad_type d = ''f_true''" "shape x = [bs, D]"
  then show "\<exists>g. backward (fst (forward x d)) grad_y = Inr (g, None)"
    by (cases "vjp (d_y d) grad_y") (simp_all add: backward_2d)
next
  fix e
  assume "d_grad_type d = ''f_true''" "shape x = [bs, D]" "vjp (d_y d) grad_y = Inl e"
  then show "backward (fst (forward x d)) grad_y = Inr (zeros_like x, None)"
    by (simp add: backward_2d)
next
  assume g: "d_grad_type d \<in> {''f_hat_true'', ''cv_fwd''}" and f: "vjp (d_y_hat d) grad_y = Inl e"
  show "\<exists>e'. backward (fst (forward x d)) grad_y = Inl e'"
  proof (cases rule: backward_cases [of x])
    case (two bs D)
    from g f show ?thesis
      by (auto simp: backward_2d [OF two] bnd_def split: sum.splits)
  next
    case other
    then show ?thesis by simp
  qed
next
  fix r r'
  assume g: "d_grad_type d \<in> {''f_hat_true'', ''cv_fwd''}" and f: "vjp (d_y_hat d) grad_y = Inl e"
    and r: "backward (fst (forward x (d\<lparr>d_grad_type := ''f_fwd''\<rparr>))) grad_y = Inr r"
    and r': "backward (fst (forward x (d\<lparr>d_grad_type := ''f_fwd'', d_dvf := d_dvf_hat d\<rparr>))) grad_y = Inr r'"
  show "backward (fst (forward x d)) grad_y = Inl e"
  proof (cases rule: backward_cases [of x])
    case (two bs D)
    from r have 1: "forward_gradient grad_y (d_dvf d) (smul (d_v_scale d) (d_v d)) (d_Nv d) bs D = Inr (fst r)"
      by (auto simp: backward_2d [OF two] bnd_eq_Inr)
    from r' have 2: "forward_gradient grad_y (d_dvf_hat d) (smul (d_v_scale d) (d_v d)) (d_Nv d) bs D = Inr (fst r')"
      by (auto simp: backward_2d [OF two] bnd_eq_Inr)
    from g f show ?thesis
      by (auto simp: backward_2d [OF two] 1 2)
  next
    case other
    then show ?thesis using r by simp
  qed
qed

theorem exact_gradient_failure_witness:
  "backward (fst (forward ex_x (ex_d_opaque ''f_true''))) ex_grad_y = Inr (Tensor [1, 2] [0, 0], None)
   \<and> backward (fst (forward ex_x (ex_d_opaque ''cv_fwd''))) ex_grad_y = Inl RuntimeError"
proof -
  have 1: "d_grad_type (ex_d_opaque ''f_true'') = ''f_true'' \<and> shape ex_x = [1, 2]"
    by (simp add: ex_d_opaque_def ex_d_def ex_x_def)
  have 2: "vjp (d_y (ex_d_opaque ''f_true'')) ex_grad_y = Inl RuntimeError"
    by (simp add: ex_d_opaque_def ex_d_def)
  have 3: "d_grad_type (ex_d_opaque ''cv_fwd'') \<in> {''f_hat_true'', ''cv_fwd''}
      \<and> vjp (d_y_hat (ex_d_opaque ''cv_fwd'')) ex_grad_y = Inl RuntimeError"
    by (simp add: ex_d_opaque_def ex_d_def)
  have 4: "backward (fst (forward ex_x ((ex_d_opaque ''cv_fwd'')\<lparr>d_grad_type := ''f_fwd''\<rparr>))) ex_grad_y
      = Inr (Tensor [1, 2] [3, 4], None)"
    by code_simp
  have 5: "backward (fst (forward ex_x ((ex_d_opaque ''cv_fwd'')
        \<lparr>d_grad_type := ''f_fwd'', d_dvf := d_dvf_hat (ex_d_opaque ''cv_fwd'')\<rparr>))) ex_grad_y
      = Inr (Tensor [1, 2] [5 / 2, 9 / 2], None)"
    by code_simp
  have z: "zeros_like ex_x = Tensor [1, 2] [0, 0]"
    by (simp add: zeros_like_def ex_x_def)
  note a = exact_gradient_failure [of "ex_d_opaque ''f_true''" ex_x 1 2 ex_grad_y RuntimeError]
  note b = exact_gradient_failure [of "ex_d_opaque ''cv_fwd''" ex_x 1 2 ex_grad_y RuntimeError]
  have "backward (fst (forward ex_x (ex_d_opaque ''f_true''))) ex_grad_y = Inr (zeros_like ex_x, None)"
    using a 1 2 by blast
  moreover have "backward (fst (forward ex_x (ex_d_opaque ''cv_fwd''))) ex_grad_y = Inl RuntimeError"
    using b 3 4 5 by blast
  ultimately show ?thesis by (simp add: z)
qed

text \<open>
  The claim C3 as stated fails: the surrogate's exact gradient raises, and \<open>backward\<close>
  raises with it under \<open>"f_hat_true"\<close> and under \<open>"cv_fwd"\<close>.
\<close>

theorem surrogate_gradient_failure_counterexample:
  "vjp (d_y_hat (ex_d_opaque ''f_hat_true'')) ex_grad_y = Inl RuntimeError
   \<and> backward (fst (forward ex_x (ex_d_opaque ''f_hat_true''))) ex_grad_y = Inl RuntimeError
   \<and> backward (fst (forward ex_x (ex_d_opaque ''cv_fwd''))) ex_grad_y = Inl RuntimeError"
  by code_simp

text \<open>
  C7, as amended. An unrecognized \<open>jvp_type\<close> makes \<open>jvp\<close> raise \<open>NotImplementedError\<close>.
  An unrecognized \<open>grad_type\<close> never yields a gradient: \<open>backward\<close> first computes what
  it computes under \<open>"f_hat_true"\<close>; where that returns it raises \<open>NotImplementedError\<close>,
  and where that raises it raises the same exception.
\<close>

theorem unsupported_modes:
  "(jvp_type \<notin> {''forwardAD'', ''forwardFD'', ''centralFD''} \<longrightarrow>
      jvp f x v jvp_type eps = Inl NotImplementedError)
   \<and> (d_grad_type d \<notin> {''f_true'', ''f_fwd'', ''f_hat_true'', ''cv_fwd''} \<longrightarrow>
        (\<exists>e. backward (fst (forward x d)) grad_y = Inl e)
      \<and> (\<forall>r. backward (fst (forward x (d\<lparr>d_grad_type := ''f_hat_true''\<rparr>))) grad_y = Inr r \<longrightarrow>
            backward (fst (forward x d)) grad_y = Inl NotImplementedError)
      \<and> (\<forall>e. backward (fst (forward x (d\<lparr>d_grad_type := ''f_hat_true''\<rparr>))) grad_y = Inl e \<longrightarrow>
            backward (fst (forward x d)) grad_y = Inl e))"
proof -
  have j: "jvp f x v jvp_type eps = Inl NotImplementedError"
    if "jvp_type \<notin> {''forwardAD'', ''forwardFD'', ''centralFD''}"
    using that by (simp add: jvp_def)
  have b: "backward (fst (forward x d)) grad_y =
      (case backward (fst (forward x (d\<lparr>d_grad_type := ''f_hat_true''\<rparr>))) grad_y of
         Inr r \<Rightarrow> Inl NotImplementedError | Inl e \<Rightarrow> Inl e)"
    if g: "d_grad_type d \<notin> {''f_true'', ''f_fwd'', ''f_hat_true'', ''cv_fwd''}"
  proof (cases rule: backward_cases [of x])
    case (two bs D)
    show ?thesis
      using g
      by (simp add: backward_2d [OF two] bnd_def split: sum.splits)
  next
    case other
    show ?thesis by (simp add: other)
  qed
  have e: "\<exists>e. backward (fst (forward x d)) grad_y = Inl e"
    if g: "d_grad_type d \<notin> {''f_true'', ''f_fwd'', ''f_hat_true'', ''cv_fwd''}"
    by (cases "backward (fst (forward x (d\<lparr>d_grad_type := ''f_hat_true''\<rparr>))) grad_y")
       (simp_all add: b [OF g])
  show ?thesis
  proof (intro conjI impI allI)
    assume "jvp_type \<notin> {''forwardAD'', ''forwardFD'', ''centralFD''}"
    then show "jvp f x v jvp_type eps = Inl NotImplementedError" by (rule j)
  next
    assume "d_grad_type d \<notin> {''f_true'', ''f_fwd'', ''f_hat_true'', ''cv_fwd''}"
    then show "\<exists>e. backward (fst (forward x d)) grad_y = Inl e" by (rule e)
  next
    fix r
    assume "d_grad_type d \<notin> {''f_true'', ''f_fwd'', ''f_hat_true'', ''cv_fwd''}"
      and "backward (fst (forward x (d\<lparr>d_grad_type := ''f_hat_true''\<rparr>))) grad_y = Inr r"
    then show "backward (fst (forward x d)) grad_y = Inl NotImplementedError"
      by (simp add: b)
  next
    fix e
    assume "d_grad_type d \<notin> {''f_true'', ''f_fwd'', ''f_hat_true'', ''cv_fwd''}"
      and "backward (fst (forward x (d\<lparr>d_grad_type := ''f_hat_true''\<rparr>))) grad_y = Inl e"
    then show "backward (fst (forward x d)) grad_y = Inl e"
      by (simp add: b)
  qed
qed

theorem unsupported_modes_witness:
  "jvp sphere ex_x ex_x ''backwardAD'' 1 = Inl NotImplementedError
   \<and> backward (fst (forward ex_x (ex_d ''f_hat''))) ex_grad_y = Inl NotImplementedError
   \<and> backward (fst (forward ex_x (ex_d_opaque ''f_hat''))) ex_grad_y = Inl RuntimeError"
proof -
  have 1: "''backwardAD'' \<notin> {''forwardAD'', ''forwardFD'', ''centralFD''}" by simp
  have 2: "d_grad_type (ex_d ''f_hat'') \<notin> {''f_true'', ''f_fwd'', ''f_hat_true'', ''cv_fwd''}"
    by (simp add: ex_d_def)
  have 3: "d_grad_type (ex_d_opaque ''f_hat'') \<notin> {''f_true'', ''f_fwd'', ''f_hat_true'', ''cv_fwd''}"
    by (simp add: ex_d_def ex_d_opaque_def)
  have 4: "backward (fst (forward ex_x ((ex_d ''f_hat'')\<lparr>d_grad_type := ''f_hat_true''\<rparr>))) ex_grad_y
      = Inr (Tensor [1, 2] [5, 9], None)"
    by code_simp
  have 5: "backward (fst (forward ex_x ((ex_d_opaque ''f_hat'')\<lparr>d_grad_type := ''f_hat_true''\<rparr>))) ex_grad_y
      = Inl RuntimeError"
    by code_simp
  note a = unsupported_modes [of "''backwardAD''" sphere ex_x ex_x 1 "ex_d ''f_hat''" ex_grad_y]
  note b = unsupported_modes [of "''backwardAD''" sphere ex_x ex_x 1 "ex_d_opaque ''f_hat''" ex_grad_y]
  have "jvp sphere ex_x ex_x ''backwardAD'' 1 = Inl NotImplementedError"
    using a 1 by blast
  moreover have "backward (fst (forward ex_x (ex_d ''f_hat''))) ex_grad_y = Inl NotImplementedError"
    using a 2 4 by blast
  moreover have "backward (fst (forward ex_x (ex_d_opaque ''f_hat''))) ex_grad_y = Inl RuntimeError"
    using b 3 5 by blast
  ultimately show ?thesis by blast
qed

text \<open>
  The claim C7 as stated fails: with an unrecognized \<open>grad_type\<close> and a surrogate graph
  that autograd cannot differentiate, \<open>backward\<close> raises \<open>RuntimeError\<close>, not
  \<open>NotImplementedError\<close>.
\<close>

theorem unsupported_grad_type_counterexample:
  "''f_hat'' \<notin> {''f_true'', ''f_fwd'', ''f_hat_true'', ''cv_fwd''}
   \<and> backward (fst (forward ex_x (ex_d_opaque ''f_hat''))) ex_grad_y = Inl RuntimeError"
  by code_simp

text \<open>
  C9. In mode \<open>forwardAD\<close> on the sphere function, for \<open>x\<close> and \<open>v\<close> of one shape with last
  dimension \<open>n\<close>, \<open>jvp\<close> returns per row the sum of the squares of \<open>x\<close> and twice the dot
  product of \<open>x\<close> and \<open>v\<close>; at \<open>x = [[3, 4]]\<close>, \<open>v = [[1, 0]]\<close> these are 25 and 6.
\<close>

theorem sphere_forwardAD:
  assumes x: "shape x = s @ [n]" "well_formed x"
    and v: "shape v = shape x" "well_formed v"
  shows "\<exists>y dvf. jvp sphere x v ''forwardAD'' eps = Inr (y, Some dvf)
     \<and> shape y = s @ [1] \<and> shape dvf = s @ [1] \<and> well_formed y \<and> well_formed dvf
     \<and> (\<forall>q<numel s. data y ! q = (\<Sum>k<n. (data x ! (q * n + k))\<^sup>2)
                   \<and> data dvf ! q = 2 * (\<Sum>k<n. data x ! (q * n + k) * data v ! (q * n + k)))"
proof -
  let ?y = "sum_last (square x)"
  let ?dvf = "sum_last (square_tangent x v)"
  have j: "jvp sphere x v ''forwardAD'' eps = Inr (?y, Some ?dvf)"
    using v(1) by (simp add: jvp_def make_dual_def sphere_def)
  have len: "length (data x) = numel s * n" "length (data v) = numel s * n"
    using x v by (simp_all add: well_formed_def)
  have sq: "shape (square x) = s @ [n]" and st: "shape (square_tangent x v) = s @ [n]"
    using x by (simp_all add: square_def square_tangent_def)
  have ent: "data ?y ! q = (\<Sum>k<n. (data x ! (q * n + k))\<^sup>2)
           \<and> data ?dvf ! q = 2 * (\<Sum>k<n. data x ! (q * n + k) * data v ! (q * n + k))"
    if q: "q < numel s" for q
  proof -
    have a: "data (square x) ! (q * n + k) = (data x ! (q * n + k))\<^sup>2" if "k < n" for k
      using row_index_bound [OF q that] len by (simp add: square_def)
    have b: "data (square_tangent x v) ! (q * n + k) = 2 * (data x ! (q * n + k) * data v ! (q * n + k))"
      if "k < n" for k
      using row_index_bound [OF q that] len by (simp add: square_tangent_def)
    have "data ?y ! q = (\<Sum>k<n. data (square x) ! (q * n + k))"
      by (rule sum_last_nth [OF sq q])
    also have "\<dots> = (\<Sum>k<n. (data x ! (q * n + k))\<^sup>2)"
      by (rule sum.cong) (simp_all add: a)
    finally have 1: "data ?y ! q = (\<Sum>k<n. (data x ! (q * n + k))\<^sup>2)" .
    have "data ?dvf ! q = (\<Sum>k<n. data (square_tangent x v) ! (q * n + k))"
      by (rule sum_last_nth [OF st q])
    also have "\<dots> = (\<Sum>k<n. 2 * (data x ! (q * n + k) * data v ! (q * n + k)))"
      by (rule sum.cong) (simp_all add: b)
    also have "\<dots> = 2 * (\<Sum>k<n. data x ! (q * n + k) * data v ! (q * n + k))"
      by (simp add: sum_distrib_left)
    finally show ?thesis using 1 by simp
  qed
  have sh: "shape ?y = s @ [1]" "shape ?dvf = s @ [1]"
    using sq st x by (simp_all add: sum_last_def)
  have w: "well_formed ?y" "well_formed ?dvf"
    using sq st x by (simp_all add: sum_last_def well_formed_def)
  show ?thesis using j sh w ent by blast
qed

theorem sphere_forwardAD_witness:
  "jvp sphere (Tensor [1, 2] [3, 4]) (Tensor [1, 2] [1, 0]) ''forwardAD'' (1 / 1000)
     = Inr (Tensor [1, 1] [25], Some (Tensor [1, 1] [6]))"
proof -
  let ?x = "Tensor [1, 2] [3, 4]" and ?v = "Tensor [1, 2] [1, 0]"
  have 1: "shape ?x = [1] @ [2]" "well_formed ?x" "shape ?v = shape ?x" "well_formed ?v"
    by (simp_all add: well_formed_def)
  from sphere_forwardAD [OF 1, of "1 / 1000"] obtain y dvf where
      j: "jvp sphere ?x ?v ''forwardAD'' (1 / 1000) = Inr (y, Some dvf)"
    and s: "shape y = [1] @ [1]" "shape dvf = [1] @ [1]"
    and w: "well_formed y" "well_formed dvf"
    and e: "\<forall>q<numel [1]. data y ! q = (\<Sum>k<2. (data ?x ! (q * 2 + k))\<^sup>2)
                   \<and> data dvf ! q = 2 * (\<Sum>k<2. data ?x ! (q * 2 + k) * data ?v ! (q * 2 + k))"
    by blast
  have l: "length (data y) = 1" "length (data dvf) = 1"
    using s w by (simp_all add: well_formed_def)
  have "data y ! 0 = 25" "data dvf ! 0 = 6"
    using e [rule_format, of 0] by (simp_all add: lessThan_Suc eval_nat_numeral)
  then have "data y = [25]" "data dvf = [6]"
    using l by (auto simp: length_Suc_conv)
  then have "y = Tensor [1, 1] [25]" "dvf = Tensor [1, 1] [6]"
    using s by (simp_all add: tensor.expand)
  then show ?thesis using j by simp
qed

section \<open>Properties of the tasks\<close>

text \<open>
  C4. The code at the input the claim is about: the two test tasks, one without and one
  with a ground truth, have equal \<open>A\<close> and \<open>b\<close>, and comparing them raises instead of
  returning \<open>False\<close>, in both orders for the dense representation and with the ground truth
  absent on the left for the sparse one.
\<close>

theorem task_eq_mixed_ground_truth:
  "PyTorchLinearSystemTask_eq ex_torch_task ex_torch_task_gt = Inl TypeError
   \<and> PyTorchLinearSystemTask_eq ex_torch_task_gt ex_torch_task = Inl TypeError
   \<and> PETScLinearSystemTask_eq ex_petsc_task ex_petsc_task_gt = Inl AttributeError"
  by code_simp






end
